theory Spec2Isabelle
  imports Complex_Main "HOL-Library.Word"
begin

section \<open>Images\<close>

text \<open>
  The editor keeps its images as numpy arrays of shape \<open>(height, width, 3)\<close> with
  \<open>uint8\<close> entries. An image is modelled as a list of rows, a row as a list of pixels and
  a pixel as its three channels. numpy arrays are rectangular; theorems that depend on it
  carry \<open>rectangular\<close> as a hypothesis. Every \<^verbatim>\<open>.copy()\<close> of the source is the identity
  here: lists are values, so a stored snapshot can never alias the working image.
\<close>

type_synonym channel = "8 word"
type_synonym pixel = "channel \<times> channel \<times> channel"
type_synonym image = "pixel list list"
type_synonym gray_image = "channel list list"

text \<open>\<^verbatim>\<open>img.shape[0]\<close> and \<^verbatim>\<open>img.shape[1]\<close>: number of rows and number of columns.\<close>

definition shape0 :: "'a list list \<Rightarrow> nat" where
  "shape0 img = length img"

definition shape1 :: "'a list list \<Rightarrow> nat" where
  "shape1 img = (case img of [] \<Rightarrow> 0 | r # _ \<Rightarrow> length r)"

definition rectangular :: "'a list list \<Rightarrow> bool" where
  "rectangular img = (img \<noteq> [] \<and> shape1 img \<noteq> 0 \<and> list_all (\<lambda>r. length r = shape1 img) img)"

section \<open>The image library\<close>

text \<open>
  The exceptions the processor can end with: \<open>Cv2Error\<close> is Python's \<^verbatim>\<open>cv2.error\<close>,
  \<open>AttributeError\<close> is what \<^verbatim>\<open>None.copy()\<close> raises.
\<close>

datatype error = Cv2Error | AttributeError

text \<open>
  OpenCV is an external collaborator. Its geometric operations and \<^verbatim>\<open>convertScaleAbs\<close> are
  modelled below from their documented semantics. What the remaining primitives compute for
  a pixel is left open as the fields of a record, so that every theorem holds for each
  choice of them:
  \<^item> \<open>imread\<close>: the decoded BGR image of a path, \<open>None\<close> where \<^verbatim>\<open>cv2.imread\<close> returns
    \<^verbatim>\<open>None\<close> (missing file, unsupported or corrupt data);
  \<^item> \<open>rgb2gray\<close>: the luminance of one RGB pixel;
  \<^item> \<open>gaussian\<close>: the value of the Gaussian blur of an image with a given kernel size at
    row \<open>y\<close>, column \<open>x\<close>;
  \<^item> \<open>inter_area\<close>: the value of the area-interpolated resize of an image to a given
    width and height at row \<open>y\<close>, column \<open>x\<close>;
  \<^item> \<open>Canny\<close>: the edge map of a single-channel image for two thresholds;
  \<^item> \<open>rejects_empty\<close>: whether \<^verbatim>\<open>cv2.rotate\<close> and \<^verbatim>\<open>cv2.flip\<close> raise on \<^verbatim>\<open>None\<close> (an
    empty array) or hand back \<^verbatim>\<open>None\<close>; this differs between OpenCV builds.
\<close>

record cv2 =
  imread :: "string \<Rightarrow> image option"
  rgb2gray :: "pixel \<Rightarrow> channel"
  gaussian :: "image \<Rightarrow> int \<Rightarrow> nat \<Rightarrow> nat \<Rightarrow> pixel"
  inter_area :: "image \<Rightarrow> nat \<Rightarrow> nat \<Rightarrow> nat \<Rightarrow> nat \<Rightarrow> pixel"
  Canny :: "gray_image \<Rightarrow> int \<Rightarrow> int \<Rightarrow> gray_image"
  rejects_empty :: bool

text \<open>
  \<^verbatim>\<open>cv2.cvtColor\<close> asserts that its source is not empty, so it raises \<^verbatim>\<open>cv2.error\<close> on
  \<^verbatim>\<open>None\<close>. \<open>COLOR_BGR2RGB\<close> and \<open>COLOR_RGB2BGR\<close> both swap the first and third channel.
\<close>

definition swap_rb :: "pixel \<Rightarrow> pixel" where
  "swap_rb p = (case p of (a, b, c) \<Rightarrow> (c, b, a))"

definition cvtColor_BGR2RGB :: "image option \<Rightarrow> error + image" where
  "cvtColor_BGR2RGB src = (case src of None \<Rightarrow> Inl Cv2Error | Some img \<Rightarrow> Inr (map (map swap_rb) img))"

definition cvtColor_RGB2BGR :: "image option \<Rightarrow> error + image" where
  "cvtColor_RGB2BGR src = (case src of None \<Rightarrow> Inl Cv2Error | Some img \<Rightarrow> Inr (map (map swap_rb) img))"

definition RGB2GRAY :: "cv2 \<Rightarrow> image \<Rightarrow> gray_image" where
  "RGB2GRAY lib img = map (map (rgb2gray lib)) img"

definition cvtColor_RGB2GRAY :: "cv2 \<Rightarrow> image option \<Rightarrow> error + gray_image" where
  "cvtColor_RGB2GRAY lib src =
     (case src of None \<Rightarrow> Inl Cv2Error | Some img \<Rightarrow> Inr (RGB2GRAY lib img))"

definition cvtColor_GRAY2RGB :: "gray_image \<Rightarrow> image" where
  "cvtColor_GRAY2RGB g = map (map (\<lambda>v. (v, v, v))) g"

text \<open>
  \<^verbatim>\<open>cv2.rotate(src, cv2.ROTATE_90_CLOCKWISE)\<close> is a transposition followed by a horizontal
  flip: \<open>dst[i][j] = src[h - 1 - j][i]\<close>. \<^verbatim>\<open>cv2.flip(src, mode)\<close> reverses the order of the
  rows for \<open>mode = 0\<close>, every row for \<open>mode > 0\<close> and both for \<open>mode < 0\<close>.
\<close>

definition ROTATE_90_CLOCKWISE :: "image \<Rightarrow> image" where
  "ROTATE_90_CLOCKWISE img = map rev (transpose img)"

definition flip_image :: "image \<Rightarrow> int \<Rightarrow> image" where
  "flip_image img mode =
     (if mode = 0 then rev img else if 0 < mode then map rev img else rev (map rev img))"

definition cv2_rotate :: "cv2 \<Rightarrow> image option \<Rightarrow> error + image option" where
  "cv2_rotate lib src =
     (case src of
        None \<Rightarrow> if rejects_empty lib then Inl Cv2Error else Inr None
      | Some img \<Rightarrow> Inr (Some (ROTATE_90_CLOCKWISE img)))"

definition cv2_flip :: "cv2 \<Rightarrow> image option \<Rightarrow> int \<Rightarrow> error + image option" where
  "cv2_flip lib src mode =
     (case src of
        None \<Rightarrow> if rejects_empty lib then Inl Cv2Error else Inr None
      | Some img \<Rightarrow> Inr (Some (flip_image img mode)))"

text \<open>
  \<^verbatim>\<open>cv2.convertScaleAbs(src, alpha, beta)\<close> computes, on every channel,
  \<open>saturate_cast<uchar>(|src * alpha + beta|)\<close>: scale, absolute value, rounding to the
  nearest integer with ties to even (\<open>cvRound\<close>), saturation to \<open>0..255\<close>. The arithmetic
  is exact here (\<open>alpha\<close> a rational); OpenCV computes in floating point, which agrees
  whenever \<open>src * alpha + beta\<close> is representable, as it is for \<open>alpha = 1.0\<close>.
\<close>

definition cvRound :: "rat \<Rightarrow> int" where
  "cvRound x =
     (let f = \<lfloor>x\<rfloor>; d = x - of_int f
      in if d < 1 / 2 then f else if 1 / 2 < d then f + 1 else if even f then f else f + 1)"

definition saturate_cast_uchar :: "int \<Rightarrow> channel" where
  "saturate_cast_uchar n = (if n < 0 then 0 else if 255 < n then 255 else word_of_int n)"

definition convertScaleAbs_channel :: "rat \<Rightarrow> int \<Rightarrow> channel \<Rightarrow> channel" where
  "convertScaleAbs_channel alpha beta v =
     saturate_cast_uchar (cvRound \<bar>of_nat (unat v) * alpha + of_int beta\<bar>)"

definition convertScaleAbs :: "image \<Rightarrow> rat \<Rightarrow> int \<Rightarrow> image" where
  "convertScaleAbs img alpha beta =
     map (map (\<lambda>(r, g, b). (convertScaleAbs_channel alpha beta r,
                             convertScaleAbs_channel alpha beta g,
                             convertScaleAbs_channel alpha beta b))) img"

text \<open>
  \<^verbatim>\<open>cv2.GaussianBlur\<close> returns an image of the shape of its source, \<^verbatim>\<open>cv2.resize\<close> one of
  the requested width and height.
\<close>

definition GaussianBlur :: "cv2 \<Rightarrow> image \<Rightarrow> int \<Rightarrow> image" where
  "GaussianBlur lib img ksize =
     map (\<lambda>y. map (\<lambda>x. gaussian lib img ksize y x) [0..<shape1 img]) [0..<shape0 img]"

definition resize :: "cv2 \<Rightarrow> image \<Rightarrow> nat \<Rightarrow> nat \<Rightarrow> image" where
  "resize lib img width height =
     map (\<lambda>y. map (\<lambda>x. inter_area lib img width height y x) [0..<width]) [0..<height]"

section \<open>FilterSettings\<close>

record FilterSettings =
  brightness :: int
  blur :: int
  contrast :: rat
  scale :: int
  grayscale :: bool

definition FilterSettings_init :: FilterSettings where
  "FilterSettings_init = \<lparr>brightness = 0, blur = 0, contrast = 1, scale = 100, grayscale = False\<rparr>"

definition reset :: "FilterSettings \<Rightarrow> FilterSettings" where
  "reset st = st\<lparr>brightness := 0, blur := 0, contrast := 1, scale := 100, grayscale := False\<rparr>"

section \<open>ImageProcessor\<close>

text \<open>
  The fields of the class; \<open>None\<close> is Python's \<^verbatim>\<open>None\<close>. The two stacks are Python lists:
  \<^verbatim>\<open>append\<close> adds at the end, \<^verbatim>\<open>pop\<close> takes the last element.
\<close>

record ImageProcessor =
  true_original :: "image option"
  original_image :: "image option"
  current_image :: "image option"
  history :: "image list"
  redo_stack :: "image list"

definition ImageProcessor_init :: ImageProcessor where
  "ImageProcessor_init =
     \<lparr>true_original = None, original_image = None, current_image = None,
      history = [], redo_stack = []\<rparr>"

text \<open>
  A method returns its value, or the exception it ends with, together with the processor as
  the method leaves it.
\<close>

type_synonym 'a outcome = "(error + 'a) \<times> ImageProcessor"

definition load_file :: "cv2 \<Rightarrow> ImageProcessor \<Rightarrow> string \<Rightarrow> image option outcome" where
  "load_file lib s file_path =
     (let image = imread lib file_path
      in case cvtColor_BGR2RGB image of
           Inl e \<Rightarrow> (Inl e, s)
         | Inr rgb \<Rightarrow>
             (Inr (Some rgb),
              s\<lparr>true_original := Some rgb, original_image := Some rgb,
                current_image := Some rgb, history := [], redo_stack := []\<rparr>))"

text \<open>The value of \<open>save_file\<close> is what it hands to \<^verbatim>\<open>cv2.imwrite\<close>, if anything.\<close>

definition save_file :: "ImageProcessor \<Rightarrow> string \<Rightarrow> (string \<times> image) option outcome" where
  "save_file s file_path =
     (if current_image s = None then (Inr None, s)
      else case cvtColor_RGB2BGR (current_image s) of
             Inl e \<Rightarrow> (Inl e, s)
           | Inr save_img \<Rightarrow> (Inr (Some (file_path, save_img)), s))"

definition revert_to_original :: "ImageProcessor \<Rightarrow> image option outcome" where
  "revert_to_original s =
     (if true_original s = None then (Inr None, s)
      else (Inr (true_original s),
            s\<lparr>original_image := true_original s, history := [], redo_stack := []\<rparr>))"

definition save_state_for_undo :: "ImageProcessor \<Rightarrow> ImageProcessor" where
  "save_state_for_undo s =
     (case original_image s of
        None \<Rightarrow> s
      | Some img \<Rightarrow> s\<lparr>history := history s @ [img], redo_stack := []\<rparr>)"

definition undo :: "ImageProcessor \<Rightarrow> image option outcome" where
  "undo s =
     (if history s = [] then (Inr None, s)
      else case original_image s of
             None \<Rightarrow> (Inl AttributeError, s)
           | Some img \<Rightarrow>
               (Inr (Some (last (history s))),
                s\<lparr>redo_stack := redo_stack s @ [img],
                  original_image := Some (last (history s)),
                  history := butlast (history s)\<rparr>))"

definition redo :: "ImageProcessor \<Rightarrow> image option outcome" where
  "redo s =
     (if redo_stack s = [] then (Inr None, s)
      else case original_image s of
             None \<Rightarrow> (Inl AttributeError, s)
           | Some img \<Rightarrow>
               (Inr (Some (last (redo_stack s))),
                s\<lparr>history := history s @ [img],
                  original_image := Some (last (redo_stack s)),
                  redo_stack := butlast (redo_stack s)\<rparr>))"

text \<open>
  \<^verbatim>\<open>int(n * scale / 100)\<close>: Python's \<^verbatim>\<open>int\<close> truncates towards zero. The quotient is a
  float in the source; for every image that fits in memory it is the exact quotient
  truncated.
\<close>

definition int_percent :: "nat \<Rightarrow> int \<Rightarrow> int" where
  "int_percent n pct =
     (if 0 \<le> int n * pct then (int n * pct) div 100 else - ((- (int n * pct)) div 100))"

text \<open>
  The body of \<open>apply_transformations\<close> as a function of the working image: grayscale,
  brightness and contrast, blur, resize, in this order. The working image is an array
  here, so none of the library calls can raise.
\<close>

definition apply_transformations_img :: "cv2 \<Rightarrow> image \<Rightarrow> FilterSettings \<Rightarrow> image" where
  "apply_transformations_img lib img settings =
     (let temp_img = img;
          temp_img = (if grayscale settings
                      then (let gray = RGB2GRAY lib temp_img in cvtColor_GRAY2RGB gray)
                      else temp_img);
          temp_img = convertScaleAbs temp_img (contrast settings) (brightness settings);
          temp_img = (if 0 < blur settings
                      then GaussianBlur lib temp_img (blur settings * 2 + 1)
                      else temp_img);
          temp_img = (if scale settings \<noteq> 100
                      then (let width = int_percent (shape1 temp_img) (scale settings);
                                height = int_percent (shape0 temp_img) (scale settings);
                                width = (if width < 1 then 1 else width);
                                height = (if height < 1 then 1 else height)
                            in resize lib temp_img (nat width) (nat height))
                      else temp_img)
      in temp_img)"

definition apply_transformations :: "cv2 \<Rightarrow> ImageProcessor \<Rightarrow> FilterSettings \<Rightarrow> image option outcome" where
  "apply_transformations lib s settings =
     (case original_image s of
        None \<Rightarrow> (Inr None, s)
      | Some img \<Rightarrow>
          (let temp_img = apply_transformations_img lib img settings
           in (Inr (Some temp_img), s\<lparr>current_image := Some temp_img\<rparr>)))"

definition apply_canny_edge :: "cv2 \<Rightarrow> ImageProcessor \<Rightarrow> image option outcome" where
  "apply_canny_edge lib s =
     (let s1 = save_state_for_undo s
      in case cvtColor_RGB2GRAY lib (original_image s1) of
           Inl e \<Rightarrow> (Inl e, s1)
         | Inr gray \<Rightarrow>
             (let edges = Canny lib gray 100 200;
                  out = cvtColor_GRAY2RGB edges
              in (Inr (Some out), s1\<lparr>original_image := Some out\<rparr>)))"

definition rotate_90 :: "cv2 \<Rightarrow> ImageProcessor \<Rightarrow> image option outcome" where
  "rotate_90 lib s =
     (let s1 = save_state_for_undo s
      in case cv2_rotate lib (original_image s1) of
           Inl e \<Rightarrow> (Inl e, s1)
         | Inr out \<Rightarrow> (Inr out, s1\<lparr>original_image := out\<rparr>))"

definition flip :: "cv2 \<Rightarrow> ImageProcessor \<Rightarrow> int \<Rightarrow> image option outcome" where
  "flip lib s mode =
     (let s1 = save_state_for_undo s
      in case cv2_flip lib (original_image s1) mode of
           Inl e \<Rightarrow> (Inl e, s1)
         | Inr out \<Rightarrow> (Inr out, s1\<lparr>original_image := out\<rparr>))"

text \<open>The edge map that \<open>apply_canny_edge\<close> stores for a working image.\<close>

definition canny_edge_img :: "cv2 \<Rightarrow> image \<Rightarrow> image" where
  "canny_edge_img lib img = cvtColor_GRAY2RGB (Canny lib (RGB2GRAY lib img) 100 200)"

section \<open>A library instance for evaluation\<close>

text \<open>
  A concrete library on which the examples below are evaluated: one decodable file, the
  green channel as luminance, blur and resize sampling the nearest source pixel, and an
  edge detector that finds no edge.
\<close>

definition sample_px :: "image \<Rightarrow> nat \<Rightarrow> nat \<Rightarrow> pixel" where
  "sample_px img y x =
     (if y < length img \<and> x < length (img ! y) then img ! y ! x else (0, 0, 0))"

definition example_cv2 :: cv2 where
  "example_cv2 =
     \<lparr>imread = (\<lambda>p. if p = ''photo.png'' then Some [[(1, 2, 3), (4, 5, 6)]] else None),
      rgb2gray = (\<lambda>p. case p of (r, g, b) \<Rightarrow> g),
      gaussian = (\<lambda>img ksize y x. sample_px img y x),
      inter_area = (\<lambda>img width height y x.
                      sample_px img (y * shape0 img div height) (x * shape1 img div width)),
      Canny = (\<lambda>g lo hi. map (map (\<lambda>v. 0)) g),
      rejects_empty = True\<rparr>"

text \<open>The processor after loading \<^verbatim>\<open>photo.png\<close>: one row of two pixels, in RGB order.\<close>

definition example_loaded :: ImageProcessor where
  "example_loaded =
     \<lparr>true_original = Some [[(3, 2, 1), (6, 5, 4)]],
      original_image = Some [[(3, 2, 1), (6, 5, 4)]],
      current_image = Some [[(3, 2, 1), (6, 5, 4)]],
      history = [], redo_stack = []\<rparr>"

section \<open>Undo and redo\<close>

lemma example_loaded_by_load_file:
  "load_file example_cv2 ImageProcessor_init ''photo.png'' =
     (Inr (Some [[(3, 2, 1), (6, 5, 4)]]), example_loaded)"
  by (simp add: load_file_def example_cv2_def cvtColor_BGR2RGB_def swap_rb_def
      ImageProcessor_init_def example_loaded_def)

lemma save_state_for_undo_loaded:
  "original_image s = Some img \<Longrightarrow>
   save_state_for_undo s = s\<lparr>history := history s @ [img], redo_stack := []\<rparr>"
  by (simp add: save_state_for_undo_def)

lemma rotate_90_loaded:
  "original_image s = Some img \<Longrightarrow>
   rotate_90 lib s =
     (Inr (Some (ROTATE_90_CLOCKWISE img)),
      s\<lparr>history := history s @ [img], redo_stack := [],
        original_image := Some (ROTATE_90_CLOCKWISE img)\<rparr>)"
  by (simp add: rotate_90_def save_state_for_undo_loaded cv2_rotate_def)

lemma flip_loaded:
  "original_image s = Some img \<Longrightarrow>
   flip lib s mode =
     (Inr (Some (flip_image img mode)),
      s\<lparr>history := history s @ [img], redo_stack := [],
        original_image := Some (flip_image img mode)\<rparr>)"
  by (simp add: flip_def save_state_for_undo_loaded cv2_flip_def)

lemma apply_canny_edge_loaded:
  "original_image s = Some img \<Longrightarrow>
   apply_canny_edge lib s =
     (Inr (Some (canny_edge_img lib img)),
      s\<lparr>history := history s @ [img], redo_stack := [],
        original_image := Some (canny_edge_img lib img)\<rparr>)"
  by (simp add: apply_canny_edge_def save_state_for_undo_loaded cvtColor_RGB2GRAY_def
      canny_edge_img_def Let_def)

text \<open>
  C1. On a loaded processor with working image \<open>img\<close>, each destructive edit \<open>e\<close>
  (\<open>rotate_90\<close>, \<open>flip\<close>, \<open>apply_canny_edge\<close>, with \<open>t\<close> the image the edit computes from
  \<open>img\<close>) returns \<open>t\<close>; the \<open>undo\<close> that follows returns \<open>img\<close> and makes it the working
  image again; the \<open>redo\<close> after that returns \<open>t\<close> and brings the processor back to exactly
  the state the edit left.
\<close>

theorem undo_redo_round_trip:
  assumes "original_image s = Some img"
    and "(e, t) \<in> {(rotate_90 lib, ROTATE_90_CLOCKWISE img),
                   (\<lambda>s. flip lib s mode, flip_image img mode),
                   (apply_canny_edge lib, canny_edge_img lib img)}"
  shows "fst (e s) = Inr (Some t) \<and> original_image (snd (e s)) = Some t \<and>
         fst (undo (snd (e s))) = Inr (Some img) \<and>
         original_image (snd (undo (snd (e s)))) = Some img \<and>
         fst (redo (snd (undo (snd (e s))))) = Inr (Some t) \<and>
         original_image (snd (redo (snd (undo (snd (e s)))))) = Some t \<and>
         snd (redo (snd (undo (snd (e s))))) = snd (e s)"
proof -
  have "e s = (Inr (Some t),
               s\<lparr>history := history s @ [img], redo_stack := [], original_image := Some t\<rparr>)"
    using assms by (auto simp: rotate_90_loaded flip_loaded apply_canny_edge_loaded)
  then show ?thesis
    by (simp add: undo_def redo_def)
qed

theorem undo_redo_round_trip_witness:
  "fst (rotate_90 example_cv2 example_loaded) = Inr (Some [[(3, 2, 1)], [(6, 5, 4)]]) \<and>
   original_image (snd (undo (snd (rotate_90 example_cv2 example_loaded)))) =
     Some [[(3, 2, 1), (6, 5, 4)]] \<and>
   original_image (snd (redo (snd (undo (snd (rotate_90 example_cv2 example_loaded)))))) =
     Some [[(3, 2, 1)], [(6, 5, 4)]]"
proof -
  have loaded: "original_image example_loaded = Some [[(3, 2, 1), (6, 5, 4)]]"
    by (simp add: example_loaded_def)
  have rot: "ROTATE_90_CLOCKWISE [[(3, 2, 1), (6, 5, 4)]] = [[(3, 2, 1)], [(6, 5, 4 :: channel)]]"
    by (simp add: ROTATE_90_CLOCKWISE_def)
  show ?thesis
    using undo_redo_round_trip [OF loaded, of "rotate_90 example_cv2"
        "ROTATE_90_CLOCKWISE [[(3, 2, 1), (6, 5, 4)]]" example_cv2 0]
    by (simp add: rot)
qed

text \<open>
  C2. On a loaded processor with working image \<open>img\<close>, each destructive edit appends exactly
  one entry to the undo stack, namely \<open>img\<close>, and leaves the redo stack empty, whatever the
  redo stack held before.
\<close>

theorem edit_grows_history_clears_redo:
  assumes "original_image s = Some img"
    and "e \<in> {rotate_90 lib, (\<lambda>s. flip lib s mode), apply_canny_edge lib}"
  shows "history (snd (e s)) = history s @ [img] \<and>
         length (history (snd (e s))) = length (history s) + 1 \<and>
         redo_stack (snd (e s)) = []"
  using assms by (auto simp: rotate_90_loaded flip_loaded apply_canny_edge_loaded)

theorem edit_grows_history_clears_redo_witness:
  "history (snd (flip example_cv2 (example_loaded\<lparr>redo_stack := [[[(9, 9, 9)]]]\<rparr>) 1)) =
     [[[(3, 2, 1), (6, 5, 4)]]] \<and>
   redo_stack (snd (flip example_cv2 (example_loaded\<lparr>redo_stack := [[[(9, 9, 9)]]]\<rparr>) 1)) = []"
proof -
  have loaded: "original_image (example_loaded\<lparr>redo_stack := [[[(9, 9, 9)]]]\<rparr>) =
      Some [[(3, 2, 1), (6, 5, 4)]]"
    by (simp add: example_loaded_def)
  show ?thesis
    using edit_grows_history_clears_redo [OF loaded,
        of "\<lambda>s. flip example_cv2 s 1" example_cv2 1]
    by (simp add: example_loaded_def)
qed

section \<open>Rotation\<close>

lemma ROTATE_90_CLOCKWISE_nth:
  assumes "img \<noteq> []" and "\<And>i. i < length img \<Longrightarrow> length (img ! i) = w"
  shows "ROTATE_90_CLOCKWISE img =
         map (\<lambda>i. map (\<lambda>j. img ! (length img - 1 - j) ! i) [0..<length img]) [0..<w]"
proof -
  have "transpose img = map (\<lambda>i. map (\<lambda>j. img ! j ! i) [0..<length img]) [0..<w]"
    using assms by (intro transpose_rectangle) simp_all
  moreover have "rev (map (\<lambda>j. img ! j ! i) [0..<length img]) =
                 map (\<lambda>j. img ! (length img - 1 - j) ! i) [0..<length img]" for i
    by (rule nth_equalityI) (auto simp: rev_nth)
  ultimately show ?thesis
    by (simp add: ROTATE_90_CLOCKWISE_def)
qed

lemma rotate_twice:
  assumes "length img = h" and "0 < h" and "0 < w"
    and "\<And>i. i < h \<Longrightarrow> length (img ! i) = w"
  shows "ROTATE_90_CLOCKWISE (ROTATE_90_CLOCKWISE img) =
         map (\<lambda>i. map (\<lambda>j. img ! (h - 1 - i) ! (w - 1 - j)) [0..<w]) [0..<h]"
proof -
  have r1: "ROTATE_90_CLOCKWISE img =
            map (\<lambda>i. map (\<lambda>j. img ! (h - 1 - j) ! i) [0..<h]) [0..<w]"
    using assms ROTATE_90_CLOCKWISE_nth [of img w] by auto
  let ?r = "ROTATE_90_CLOCKWISE img"
  have len: "length ?r = w" and ne: "?r \<noteq> []"
    using assms by (auto simp: r1)
  have rows: "\<And>i. i < length ?r \<Longrightarrow> length (?r ! i) = h"
    by (simp add: r1)
  have "ROTATE_90_CLOCKWISE ?r =
        map (\<lambda>i. map (\<lambda>j. ?r ! (length ?r - 1 - j) ! i) [0..<length ?r]) [0..<h]"
    using ne rows by (rule ROTATE_90_CLOCKWISE_nth)
  also have "\<dots> = map (\<lambda>i. map (\<lambda>j. img ! (h - 1 - i) ! (w - 1 - j)) [0..<w]) [0..<h]"
    using assms by (simp add: len) (simp add: r1)
  finally show ?thesis .
qed

lemma rotate_four_times:
  assumes "rectangular img"
  shows "ROTATE_90_CLOCKWISE (ROTATE_90_CLOCKWISE
           (ROTATE_90_CLOCKWISE (ROTATE_90_CLOCKWISE img))) = img"
proof -
  define h w where "h = length img" and "w = shape1 img"
  have hw: "0 < h" "0 < w" and rows: "\<And>i. i < h \<Longrightarrow> length (img ! i) = w"
    using assms by (auto simp: h_def w_def rectangular_def list_all_length)
  let ?t = "map (\<lambda>i. map (\<lambda>j. img ! (h - 1 - i) ! (w - 1 - j)) [0..<w]) [0..<h]"
  let ?u = "map (\<lambda>i. map (\<lambda>j. ?t ! (h - 1 - i) ! (w - 1 - j)) [0..<w]) [0..<h]"
  have two: "ROTATE_90_CLOCKWISE (ROTATE_90_CLOCKWISE img) = ?t"
    using h_def hw rows by (intro rotate_twice) simp_all
  have "ROTATE_90_CLOCKWISE (ROTATE_90_CLOCKWISE ?t) = ?u"
    using hw by (intro rotate_twice) simp_all
  also have "?u = img"
  proof (rule nth_equalityI)
    show "length ?u = length img"
      by (simp add: h_def)
  next
    fix i assume "i < length ?u"
    then have i: "i < h" by simp
    show "?u ! i = img ! i"
      using i hw rows [OF i] by (intro nth_equalityI) simp_all
  qed
  finally show ?thesis by (simp add: two)
qed

lemma rotate_shape:
  assumes "rectangular img"
  shows "shape0 (ROTATE_90_CLOCKWISE img) = shape1 img \<and>
         shape1 (ROTATE_90_CLOCKWISE img) = shape0 img \<and>
         rectangular (ROTATE_90_CLOCKWISE img)"
proof -
  have ne: "img \<noteq> []" and w: "0 < shape1 img"
    and rows: "\<And>i. i < length img \<Longrightarrow> length (img ! i) = shape1 img"
    using assms by (auto simp: rectangular_def list_all_length)
  have r1: "ROTATE_90_CLOCKWISE img =
            map (\<lambda>i. map (\<lambda>j. img ! (length img - 1 - j) ! i) [0..<length img])
              [0..<shape1 img]"
    using ne rows by (rule ROTATE_90_CLOCKWISE_nth)
  have "shape1 (ROTATE_90_CLOCKWISE img) = length img"
    using w by (simp add: r1 shape1_def upt_conv_Cons split: list.splits)
  then show ?thesis
    using ne w by (simp add: shape0_def r1 rectangular_def list_all_length)
qed

text \<open>
  C10. On a loaded processor whose working image \<open>img\<close> is rectangular, one \<open>rotate_90\<close>
  returns an image with the two dimensions swapped, and four in succession leave \<open>img\<close> as
  the working image again, the fourth returning it.
\<close>

theorem rotate_90_four_times:
  assumes "original_image s = Some img" and "rectangular img"
  shows "fst (rotate_90 lib s) = Inr (Some (ROTATE_90_CLOCKWISE img)) \<and>
         shape1 (ROTATE_90_CLOCKWISE img) = shape0 img \<and>
         shape0 (ROTATE_90_CLOCKWISE img) = shape1 img \<and>
         fst (rotate_90 lib (snd (rotate_90 lib (snd (rotate_90 lib (snd (rotate_90 lib s)))))))
           = Inr (Some img) \<and>
         original_image
           (snd (rotate_90 lib (snd (rotate_90 lib (snd (rotate_90 lib (snd (rotate_90 lib s))))))))
           = Some img"
  using assms
  by (simp add: rotate_90_loaded rotate_four_times rotate_shape)

theorem rotate_90_four_times_witness:
  "fst (rotate_90 example_cv2 example_loaded) = Inr (Some [[(3, 2, 1)], [(6, 5, 4)]]) \<and>
   original_image
     (snd (rotate_90 example_cv2 (snd (rotate_90 example_cv2
        (snd (rotate_90 example_cv2 (snd (rotate_90 example_cv2 example_loaded))))))))
     = Some [[(3, 2, 1), (6, 5, 4)]]"
proof -
  have loaded: "original_image example_loaded = Some [[(3, 2, 1), (6, 5, 4)]]"
    by (simp add: example_loaded_def)
  have rect: "rectangular [[(3, 2, 1), (6, 5, 4 :: channel)]]"
    by (simp add: rectangular_def shape1_def)
  have rot: "ROTATE_90_CLOCKWISE [[(3, 2, 1), (6, 5, 4)]] = [[(3, 2, 1)], [(6, 5, 4 :: channel)]]"
    by (simp add: ROTATE_90_CLOCKWISE_def)
  show ?thesis
    using rotate_90_four_times [OF loaded rect, of example_cv2]
    by (simp add: rot)
qed

section \<open>Brightness and contrast\<close>

lemma cvRound_of_int: "cvRound (of_int n) = n"
  by (simp add: cvRound_def)

lemma saturate_cast_uchar_uint: "saturate_cast_uchar (uint v) = v"
proof -
  have "uint v < 256" using uint_bounded [of v] by simp
  then show ?thesis by (simp add: saturate_cast_uchar_def)
qed

lemma convertScaleAbs_channel_integral:
  "convertScaleAbs_channel (of_int a) b v = saturate_cast_uchar \<bar>uint v * a + b\<bar>"
proof -
  have "\<bar>of_nat (unat v) * of_int a + of_int b\<bar> = (of_int \<bar>uint v * a + b\<bar> :: rat)"
    by simp
  then show ?thesis
    by (simp only: convertScaleAbs_channel_def cvRound_of_int)
qed

lemma convertScaleAbs_channel_neutral: "convertScaleAbs_channel 1 0 v = v"
  using convertScaleAbs_channel_integral [of 1 0 v] by (simp add: saturate_cast_uchar_uint)

lemma convertScaleAbs_neutral: "convertScaleAbs img 1 0 = img"
  by (simp add: convertScaleAbs_def convertScaleAbs_channel_neutral case_prod_unfold)

text \<open>
  C3. The brightness and contrast step is \<^verbatim>\<open>cv2.convertScaleAbs\<close>, which takes the absolute
  value before it saturates. With contrast \<open>1.0\<close> and brightness \<open>50\<close> the channel value
  \<open>200\<close> becomes \<open>250\<close>, as the affine map clamped to \<open>0..255\<close> gives; with brightness
  \<open>-100\<close> the channel value \<open>10\<close> becomes \<open>90\<close>, where the clamped affine map gives \<open>0\<close>.
\<close>

theorem brightness_below_zero_is_mirrored:
  "apply_transformations_img lib [[(10, 10, 10)]] (FilterSettings_init\<lparr>brightness := - 100\<rparr>)
     = [[(90, 90, 90)]] \<and>
   max 0 (min 255 (1 * 10 + (- 100))) = (0 :: int) \<and>
   apply_transformations_img lib [[(200, 200, 200)]] (FilterSettings_init\<lparr>brightness := 50\<rparr>)
     = [[(250, 250, 250)]]"
proof -
  have "convertScaleAbs_channel 1 (- 100) 10 = 90"
    using convertScaleAbs_channel_integral [of 1 "- 100" 10]
    by (simp add: saturate_cast_uchar_def)
  moreover have "convertScaleAbs_channel 1 50 200 = 250"
    using convertScaleAbs_channel_integral [of 1 50 200]
    by (simp add: saturate_cast_uchar_def)
  ultimately show ?thesis
    by (simp add: apply_transformations_img_def FilterSettings_init_def convertScaleAbs_def)
qed

text \<open>
  C6. On a loaded processor with working image \<open>img\<close>, \<open>apply_transformations\<close> with scale
  \<open>100\<close>, blur \<open>0\<close>, contrast \<open>1.0\<close>, brightness \<open>0\<close> and grayscale off returns \<open>img\<close> itself
  and stores it as the preview.
\<close>

theorem neutral_settings_identity:
  assumes "original_image s = Some img"
    and "scale st = 100" and "blur st = 0" and "contrast st = 1" and "brightness st = 0"
    and "\<not> grayscale st"
  shows "apply_transformations lib s st = (Inr (Some img), s\<lparr>current_image := Some img\<rparr>)"
  using assms
  by (simp add: apply_transformations_def apply_transformations_img_def convertScaleAbs_neutral)

theorem neutral_settings_identity_witness:
  "apply_transformations example_cv2 (example_loaded\<lparr>current_image := None\<rparr>) FilterSettings_init =
     (Inr (Some [[(3, 2, 1), (6, 5, 4)]]), example_loaded)"
proof -
  have loaded: "original_image (example_loaded\<lparr>current_image := None\<rparr>) =
      Some [[(3, 2, 1), (6, 5, 4)]]"
    by (simp add: example_loaded_def)
  show ?thesis
    using neutral_settings_identity [OF loaded, of FilterSettings_init example_cv2]
    by (simp add: FilterSettings_init_def example_loaded_def)
qed

section \<open>Resizing\<close>

lemma shape_map_map:
  "shape0 (map (map f) img) = shape0 img" "shape1 (map (map f) img) = shape1 img"
  by (simp_all add: shape0_def shape1_def split: list.splits)

lemma shape_GaussianBlur:
  "shape0 (GaussianBlur lib img ksize) = shape0 img"
  "shape1 (GaussianBlur lib img ksize) = shape1 img"
proof -
  show "shape0 (GaussianBlur lib img ksize) = shape0 img"
    by (simp add: GaussianBlur_def shape0_def)
  show "shape1 (GaussianBlur lib img ksize) = shape1 img"
  proof (cases img)
    case Nil
    then show ?thesis by (simp add: GaussianBlur_def shape0_def shape1_def)
  next
    case (Cons r rs)
    then show ?thesis
      by (simp add: GaussianBlur_def shape0_def shape1_def upt_conv_Cons del: upt_Suc)
  qed
qed

lemma shape_resize:
  assumes "0 < width" and "0 < height"
  shows "shape0 (resize lib img width height) = height"
    and "shape1 (resize lib img width height) = width"
    and "rectangular (resize lib img width height)"
proof -
  show h: "shape0 (resize lib img width height) = height"
    by (simp add: resize_def shape0_def)
  show w: "shape1 (resize lib img width height) = width"
    using assms by (simp add: resize_def shape1_def upt_conv_Cons)
  show "rectangular (resize lib img width height)"
    using assms w by (simp add: rectangular_def) (simp add: resize_def list_all_length)
qed

lemma shape_replicate:
  "shape0 (replicate n r) = n" "shape1 (replicate n r) = (if n = 0 then 0 else length r)"
  by (cases n; simp add: shape0_def shape1_def)+

lemma apply_transformations_loaded:
  "original_image s = Some img \<Longrightarrow>
   apply_transformations lib s st =
     (Inr (Some (apply_transformations_img lib img st)),
      s\<lparr>current_image := Some (apply_transformations_img lib img st)\<rparr>)"
  by (simp add: apply_transformations_def Let_def)

lemma int_percent_nonneg: "0 \<le> pct \<Longrightarrow> int_percent n pct = int n * pct div 100"
  by (simp add: int_percent_def)

lemma apply_transformations_img_resized:
  assumes "scale st \<noteq> 100"
  shows "\<exists>t. shape0 t = shape0 img \<and> shape1 t = shape1 img \<and>
             apply_transformations_img lib img st =
               resize lib t (nat (max 1 (int_percent (shape1 img) (scale st))))
                            (nat (max 1 (int_percent (shape0 img) (scale st))))"
proof -
  define t1 where "t1 = (if grayscale st then cvtColor_GRAY2RGB (RGB2GRAY lib img) else img)"
  define t2 where "t2 = convertScaleAbs t1 (contrast st) (brightness st)"
  define t3 where "t3 = (if 0 < blur st then GaussianBlur lib t2 (blur st * 2 + 1) else t2)"
  have s1: "shape0 t1 = shape0 img \<and> shape1 t1 = shape1 img"
    by (simp add: t1_def cvtColor_GRAY2RGB_def RGB2GRAY_def shape_map_map)
  have s2: "shape0 t2 = shape0 img \<and> shape1 t2 = shape1 img"
    using s1 by (simp add: t2_def convertScaleAbs_def shape_map_map)
  have s3: "shape0 t3 = shape0 img \<and> shape1 t3 = shape1 img"
    using s2 by (simp add: t3_def shape_GaussianBlur)
  have "apply_transformations_img lib img st =
          resize lib t3 (nat (max 1 (int_percent (shape1 t3) (scale st))))
                        (nat (max 1 (int_percent (shape0 t3) (scale st))))"
    using assms
    by (simp add: apply_transformations_img_def t1_def t2_def t3_def Let_def max_def)
  with s3 show ?thesis by auto
qed

text \<open>
  C4. On a loaded processor with working image \<open>img\<close> and a scale other than \<open>100\<close> in
  \<open>10..200\<close>, \<open>apply_transformations\<close> returns an image with
  \<open>max 1 \<lfloor>shape0 img * scale / 100\<rfloor>\<close> rows and \<open>max 1 \<lfloor>shape1 img * scale / 100\<rfloor>\<close>
  columns: the quotient is truncated, not rounded. The result is never empty.
\<close>

theorem resize_dimensions:
  assumes "original_image s = Some img"
    and "scale st \<noteq> 100" and "10 \<le> scale st" and "scale st \<le> 200"
  shows "fst (apply_transformations lib s st) = Inr (Some (apply_transformations_img lib img st)) \<and>
         int (shape0 (apply_transformations_img lib img st)) =
           max 1 (int (shape0 img) * scale st div 100) \<and>
         int (shape1 (apply_transformations_img lib img st)) =
           max 1 (int (shape1 img) * scale st div 100) \<and>
         rectangular (apply_transformations_img lib img st)"
proof -
  define width where "width = nat (max 1 (int_percent (shape1 img) (scale st)))"
  define height where "height = nat (max 1 (int_percent (shape0 img) (scale st)))"
  obtain t where t: "apply_transformations_img lib img st = resize lib t width height"
    using apply_transformations_img_resized [OF assms(2)] unfolding width_def height_def
    by blast
  have pos: "0 < width" "0 < height"
    by (simp_all add: width_def height_def)
  have pct: "int_percent n (scale st) = int n * scale st div 100" for n
    using assms(3) by (simp add: int_percent_nonneg)
  have w: "int width = max 1 (int (shape1 img) * scale st div 100)"
    and h: "int height = max 1 (int (shape0 img) * scale st div 100)"
    by (simp_all add: width_def height_def pct)
  have ret: "fst (apply_transformations lib s st) =
      Inr (Some (apply_transformations_img lib img st))"
    using assms(1) by (simp add: apply_transformations_loaded)
  have "shape0 (resize lib t width height) = height"
    and "shape1 (resize lib t width height) = width"
    and "rectangular (resize lib t width height)"
    using pos by (rule shape_resize)+
  with ret w h show ?thesis
    by (simp only: t)
qed

theorem resize_dimensions_witness:
  "(shape0 (apply_transformations_img example_cv2 (replicate 100 (replicate 100 (0, 0, 0)))
             (FilterSettings_init\<lparr>scale := 10\<rparr>)) = 10 \<and>
    shape1 (apply_transformations_img example_cv2 (replicate 100 (replicate 100 (0, 0, 0)))
             (FilterSettings_init\<lparr>scale := 10\<rparr>)) = 10) \<and>
   (shape0 (apply_transformations_img example_cv2 (replicate 100 (replicate 100 (0, 0, 0)))
             (FilterSettings_init\<lparr>scale := 200\<rparr>)) = 200 \<and>
    shape1 (apply_transformations_img example_cv2 (replicate 100 (replicate 100 (0, 0, 0)))
             (FilterSettings_init\<lparr>scale := 200\<rparr>)) = 200)"
proof -
  define img :: image where "img = replicate 100 (replicate 100 (0, 0, 0))"
  define s where "s = example_loaded\<lparr>original_image := Some img\<rparr>"
  have loaded: "original_image s = Some img"
    by (simp add: s_def)
  have "shape0 img = 100"
    unfolding img_def by (rule shape_replicate(1))
  moreover have "shape1 img = (if (100 :: nat) = 0 then 0 else length (replicate 100 ((0, 0, 0) :: pixel)))"
    unfolding img_def by (rule shape_replicate(2))
  ultimately have shape: "shape0 img = 100" "shape1 img = 100"
    by (simp_all only: length_replicate) simp_all
  have small: "shape0 (apply_transformations_img example_cv2 img (FilterSettings_init\<lparr>scale := 10\<rparr>)) = 10 \<and>
        shape1 (apply_transformations_img example_cv2 img (FilterSettings_init\<lparr>scale := 10\<rparr>)) = 10"
    using resize_dimensions [OF loaded, of "FilterSettings_init\<lparr>scale := 10\<rparr>" example_cv2]
    by (simp add: shape)
  have large: "shape0 (apply_transformations_img example_cv2 img (FilterSettings_init\<lparr>scale := 200\<rparr>)) = 200 \<and>
        shape1 (apply_transformations_img example_cv2 img (FilterSettings_init\<lparr>scale := 200\<rparr>)) = 200"
    using resize_dimensions [OF loaded, of "FilterSettings_init\<lparr>scale := 200\<rparr>" example_cv2]
    by (simp add: shape)
  show ?thesis
    using conjI [OF small large] unfolding img_def .
qed

text \<open>
  A one-pixel image at scale \<open>190\<close>: \<open>1 * 190 / 100 = 1.9\<close> rounds to \<open>2\<close>, and the result
  has one row and one column.
\<close>

theorem resize_rounds_counterexample:
  "int (shape1 (apply_transformations_img example_cv2 [[(3, 2, 1)]]
                  (FilterSettings_init\<lparr>scale := 190\<rparr>))) \<noteq>
     max 1 (round (rat_of_nat (shape1 [[(3, 2, 1) :: pixel]]) * rat_of_int 190 / 100)) \<and>
   shape1 (apply_transformations_img example_cv2 [[(3, 2, 1)]]
             (FilterSettings_init\<lparr>scale := 190\<rparr>)) = 1 \<and>
   shape0 (apply_transformations_img example_cv2 [[(3, 2, 1)]]
             (FilterSettings_init\<lparr>scale := 190\<rparr>)) = 1"
proof -
  have r: "round (19 / 10 :: rat) = 2"
    by (simp add: round_def floor_eq_iff)
  have out: "apply_transformations_img example_cv2 [[(3, 2, 1)]] (FilterSettings_init\<lparr>scale := 190\<rparr>)
             = resize example_cv2 (convertScaleAbs [[(3, 2, 1)]] 1 0) 1 1"
    by (simp add: apply_transformations_img_def FilterSettings_init_def shape0_def shape1_def
        int_percent_def convertScaleAbs_def)
  have one: "shape1 (resize example_cv2 (convertScaleAbs [[(3, 2, 1)]] 1 0) 1 1) = 1"
    "shape0 (resize example_cv2 (convertScaleAbs [[(3, 2, 1)]] 1 0) 1 1) = 1"
    by (rule shape_resize; simp)+
  have src: "shape1 [[(3, 2, 1) :: pixel]] = 1"
    by (simp add: shape1_def)
  show ?thesis
    by (simp only: out one src) (simp add: r)
qed

section \<open>The unloaded processor and failed loads\<close>

text \<open>
  C5. On a processor that has never loaded an image, \<open>save_file\<close>, \<open>revert_to_original\<close>,
  \<open>undo\<close>, \<open>redo\<close> and \<open>apply_transformations\<close> raise nothing: each returns \<open>None\<close> and
  leaves the processor as it was. \<open>apply_canny_edge\<close> ends with the library's error, the
  processor unchanged; \<open>rotate_90\<close> and \<open>flip\<close> leave the processor unchanged as well.
\<close>

theorem unloaded_operations:
  "save_file ImageProcessor_init file_path = (Inr None, ImageProcessor_init) \<and>
   revert_to_original ImageProcessor_init = (Inr None, ImageProcessor_init) \<and>
   undo ImageProcessor_init = (Inr None, ImageProcessor_init) \<and>
   redo ImageProcessor_init = (Inr None, ImageProcessor_init) \<and>
   apply_transformations lib ImageProcessor_init st = (Inr None, ImageProcessor_init) \<and>
   apply_canny_edge lib ImageProcessor_init = (Inl Cv2Error, ImageProcessor_init) \<and>
   snd (rotate_90 lib ImageProcessor_init) = ImageProcessor_init \<and>
   snd (flip lib ImageProcessor_init mode) = ImageProcessor_init"
  by (simp add: ImageProcessor_init_def save_file_def revert_to_original_def undo_def redo_def
      apply_transformations_def apply_canny_edge_def rotate_90_def flip_def
      save_state_for_undo_def cvtColor_RGB2GRAY_def cv2_rotate_def cv2_flip_def)

text \<open>\<open>revert_to_original\<close> on a fresh processor ends with no error of either kind.\<close>

theorem unloaded_revert_counterexample:
  "fst (revert_to_original ImageProcessor_init) \<noteq> Inl Cv2Error \<and>
   fst (revert_to_original ImageProcessor_init) \<noteq> Inl AttributeError \<and>
   revert_to_original ImageProcessor_init = (Inr None, ImageProcessor_init)"
  by (simp add: ImageProcessor_init_def revert_to_original_def)

text \<open>
  C8. When \<^verbatim>\<open>cv2.imread\<close> cannot decode the file, \<open>load_file\<close> ends with the error that
  \<^verbatim>\<open>cv2.cvtColor\<close> raises on the missing image, before any field is assigned: the
  processor, with all five fields, is as it was.
\<close>

theorem load_file_decode_failure:
  assumes "imread lib file_path = None"
  shows "load_file lib s file_path = (Inl Cv2Error, s)"
  using assms by (simp add: load_file_def cvtColor_BGR2RGB_def)

theorem load_file_decode_failure_witness:
  "load_file example_cv2 example_loaded ''missing.png'' = (Inl Cv2Error, example_loaded)"
proof -
  have "imread example_cv2 ''missing.png'' = None"
    by (simp add: example_cv2_def)
  then show ?thesis
    by (rule load_file_decode_failure)
qed

section \<open>The preview\<close>

text \<open>
  C9. On a loaded processor, \<open>apply_transformations\<close> returns the transformed working image
  and stores it as the preview; the working image, the loaded original and both stacks
  are as before.
\<close>

theorem apply_transformations_frame:
  assumes "original_image s = Some img"
  shows "apply_transformations lib s st =
           (Inr (Some (apply_transformations_img lib img st)),
            s\<lparr>current_image := Some (apply_transformations_img lib img st)\<rparr>) \<and>
         original_image (snd (apply_transformations lib s st)) = Some img \<and>
         true_original (snd (apply_transformations lib s st)) = true_original s \<and>
         history (snd (apply_transformations lib s st)) = history s \<and>
         redo_stack (snd (apply_transformations lib s st)) = redo_stack s"
  using assms by (simp add: apply_transformations_loaded)

theorem apply_transformations_frame_witness:
  "snd (apply_transformations example_cv2 example_loaded (FilterSettings_init\<lparr>brightness := 50\<rparr>)) =
     example_loaded\<lparr>current_image := Some [[(53, 52, 51), (56, 55, 54)]]\<rparr>"
proof -
  have loaded: "original_image example_loaded = Some [[(3, 2, 1), (6, 5, 4)]]"
    by (simp add: example_loaded_def)
  have c: "convertScaleAbs_channel 1 50 v = saturate_cast_uchar \<bar>uint v + 50\<bar>" for v
    using convertScaleAbs_channel_integral [of 1 50 v] by simp
  have "apply_transformations_img example_cv2 [[(3, 2, 1), (6, 5, 4)]]
          (FilterSettings_init\<lparr>brightness := 50\<rparr>) = [[(53, 52, 51), (56, 55, 54)]]"
    by (simp add: apply_transformations_img_def FilterSettings_init_def convertScaleAbs_def c
        saturate_cast_uchar_def)
  then show ?thesis
    using apply_transformations_frame [OF loaded, of example_cv2
        "FilterSettings_init\<lparr>brightness := 50\<rparr>"]
    by simp
qed

text \<open>
  C7. On a loaded processor, \<open>revert_to_original\<close>, the destructive edits, \<open>undo\<close> and \<open>redo\<close>
  leave the stored preview as it was, so it is no longer derived from the working image they
  install; the \<open>apply_transformations\<close> that the caller issues next stores the preview
  derived from the new working image and the settings passed. None of these operations
  reads the stored preview: with another preview in its place each returns the same value
  and leaves the same processor, the preview apart.
\<close>

theorem preview_recomputed_by_caller:
  assumes "original_image s = Some img"
    and "f \<in> {revert_to_original, rotate_90 lib, (\<lambda>s. flip lib s mode), apply_canny_edge lib,
               undo, redo}"
  shows "current_image (snd (f s)) = current_image s \<and>
         (\<forall>b. original_image (snd (f s)) = Some b \<longrightarrow>
              current_image (snd (apply_transformations lib (snd (f s)) st)) =
                Some (apply_transformations_img lib b st) \<and>
              original_image (snd (apply_transformations lib (snd (f s)) st)) = Some b) \<and>
         fst (f (s\<lparr>current_image := c\<rparr>)) = fst (f s) \<and>
         snd (f (s\<lparr>current_image := c\<rparr>)) = (snd (f s))\<lparr>current_image := c\<rparr>"
proof -
  have render: "\<forall>b. original_image (snd (f s)) = Some b \<longrightarrow>
              current_image (snd (apply_transformations lib (snd (f s)) st)) =
                Some (apply_transformations_img lib b st) \<and>
              original_image (snd (apply_transformations lib (snd (f s)) st)) = Some b"
    by (simp add: apply_transformations_loaded)
  have "current_image (snd (f s)) = current_image s \<and>
        fst (f (s\<lparr>current_image := c\<rparr>)) = fst (f s) \<and>
        snd (f (s\<lparr>current_image := c\<rparr>)) = (snd (f s))\<lparr>current_image := c\<rparr>"
    using assms
    by (auto simp: rotate_90_loaded flip_loaded apply_canny_edge_loaded revert_to_original_def
        undo_def redo_def)
  with render show ?thesis by blast
qed

theorem preview_recomputed_by_caller_witness:
  "current_image (snd (rotate_90 example_cv2 example_loaded)) = Some [[(3, 2, 1), (6, 5, 4)]] \<and>
   current_image (snd (apply_transformations example_cv2
       (snd (rotate_90 example_cv2 example_loaded)) FilterSettings_init)) =
     Some [[(3, 2, 1)], [(6, 5, 4)]]"
proof -
  have loaded: "original_image example_loaded = Some [[(3, 2, 1), (6, 5, 4)]]"
    by (simp add: example_loaded_def)
  have rot: "ROTATE_90_CLOCKWISE [[(3, 2, 1), (6, 5, 4)]] = [[(3, 2, 1)], [(6, 5, 4 :: channel)]]"
    by (simp add: ROTATE_90_CLOCKWISE_def)
  have base: "original_image (snd (rotate_90 example_cv2 example_loaded)) =
      Some [[(3, 2, 1)], [(6, 5, 4)]]"
    by (simp add: rotate_90_loaded [OF loaded] rot)
  have neutral: "apply_transformations_img example_cv2 [[(3, 2, 1)], [(6, 5, 4)]]
      FilterSettings_init = [[(3, 2, 1)], [(6, 5, 4)]]"
    by (simp add: apply_transformations_img_def FilterSettings_init_def convertScaleAbs_neutral)
  show ?thesis
    using preview_recomputed_by_caller [OF loaded, of "rotate_90 example_cv2" example_cv2 0
        FilterSettings_init None] base
    by (simp add: neutral) (simp add: example_loaded_def)
qed

text \<open>
  After \<open>rotate_90\<close> on the loaded example the working image has two rows and the stored
  preview still one; after a later \<open>revert_to_original\<close> the working image has one row
  again and the stored preview is the rotated one.
\<close>

theorem stale_preview_counterexample:
  "original_image (snd (rotate_90 example_cv2 example_loaded)) = Some [[(3, 2, 1)], [(6, 5, 4)]] \<and>
   current_image (snd (rotate_90 example_cv2 example_loaded)) \<noteq>
     Some (apply_transformations_img example_cv2 [[(3, 2, 1)], [(6, 5, 4)]] FilterSettings_init) \<and>
   original_image (snd (revert_to_original (snd (apply_transformations example_cv2
       (snd (rotate_90 example_cv2 example_loaded)) FilterSettings_init)))) =
     Some [[(3, 2, 1), (6, 5, 4)]] \<and>
   current_image (snd (revert_to_original (snd (apply_transformations example_cv2
       (snd (rotate_90 example_cv2 example_loaded)) FilterSettings_init)))) \<noteq>
     Some (apply_transformations_img example_cv2 [[(3, 2, 1), (6, 5, 4)]] FilterSettings_init)"
proof -
  have loaded: "original_image example_loaded = Some [[(3, 2, 1), (6, 5, 4)]]"
    by (simp add: example_loaded_def)
  have rot: "ROTATE_90_CLOCKWISE [[(3, 2, 1), (6, 5, 4)]] = [[(3, 2, 1)], [(6, 5, 4 :: channel)]]"
    by (simp add: ROTATE_90_CLOCKWISE_def)
  have neutral: "apply_transformations_img example_cv2 img FilterSettings_init = img" for img
    by (simp add: apply_transformations_img_def FilterSettings_init_def convertScaleAbs_neutral)
  have s1: "snd (rotate_90 example_cv2 example_loaded) =
      example_loaded\<lparr>history := [[[(3, 2, 1), (6, 5, 4)]]],
        original_image := Some [[(3, 2, 1)], [(6, 5, 4)]]\<rparr>"
    by (simp add: rotate_90_loaded [OF loaded] rot) (simp add: example_loaded_def)
  have s2: "snd (apply_transformations example_cv2 (snd (rotate_90 example_cv2 example_loaded))
        FilterSettings_init) =
      example_loaded\<lparr>history := [[[(3, 2, 1), (6, 5, 4)]]],
        original_image := Some [[(3, 2, 1)], [(6, 5, 4)]],
        current_image := Some [[(3, 2, 1)], [(6, 5, 4)]]\<rparr>"
    by (simp add: s1 apply_transformations_loaded neutral)
  show ?thesis
    apply (simp only: s2)
    apply (simp only: s1)
    apply (simp add: neutral revert_to_original_def example_loaded_def)
    done
qed

end
